theory Spec2Isabelle
  imports Complex_Main
begin

section \<open>Numbers, errors and enumerations\<close>

text \<open>
  The program is \<^verbatim>\<open>src/ml/fitness_chatbot.py\<close>: a profile with a derived BMI, a
  nutrition calculator, a workout planner, a keyword intent classifier and the chatbot
  that stores profiles and conversation histories. Definitions come first, in the order
  of the source; the lemmas and the theorems about them follow.

  The program's numbers are Python floats. The embedding computes with exact rationals,
  so a property proved here is a property of the arithmetic the code writes down, before
  the binary rounding of each operation. Python's \<^verbatim>\<open>round(x, n)\<close> rounds to the
  nearest multiple of \<open>10^-n\<close> and breaks a tie towards the even digit.
\<close>

datatype error = KeyError string | ZeroDivisionError | ModelFault string

definition py_round :: "rat \<Rightarrow> int" where
  "py_round x =
     (let f = \<lfloor>x\<rfloor>; d = x - of_int f
      in if d < 1 / 2 then f
         else if 1 / 2 < d then f + 1
         else if even f then f else f + 1)"

definition round_nd :: "rat \<Rightarrow> nat \<Rightarrow> rat" where
  "round_nd x n = of_int (py_round (x * 10 ^ n)) / 10 ^ n"

datatype BMICategory = UNDERWEIGHT | NORMAL | OVERWEIGHT | OBESE_1 | OBESE_2 | OBESE_3

fun BMICategory_value :: "BMICategory \<Rightarrow> string" where
  "BMICategory_value UNDERWEIGHT = ''underweight''"
| "BMICategory_value NORMAL = ''normal''"
| "BMICategory_value OVERWEIGHT = ''overweight''"
| "BMICategory_value OBESE_1 = ''obese_class_1''"
| "BMICategory_value OBESE_2 = ''obese_class_2''"
| "BMICategory_value OBESE_3 = ''obese_class_3''"

datatype FitnessLevel = BEGINNER | INTERMEDIATE | ADVANCED | ELITE

fun FitnessLevel_value :: "FitnessLevel \<Rightarrow> string" where
  "FitnessLevel_value BEGINNER = ''beginner''"
| "FitnessLevel_value INTERMEDIATE = ''intermediate''"
| "FitnessLevel_value ADVANCED = ''advanced''"
| "FitnessLevel_value ELITE = ''elite''"

datatype Goal = WEIGHT_LOSS | MUSCLE_GAIN | ENDURANCE | STRENGTH | GENERAL_FITNESS | FLEXIBILITY

fun Goal_value :: "Goal \<Rightarrow> string" where
  "Goal_value WEIGHT_LOSS = ''weight_loss''"
| "Goal_value MUSCLE_GAIN = ''muscle_gain''"
| "Goal_value ENDURANCE = ''endurance''"
| "Goal_value STRENGTH = ''strength''"
| "Goal_value GENERAL_FITNESS = ''general_fitness''"
| "Goal_value FLEXIBILITY = ''flexibility''"

text \<open>\<^verbatim>\<open>FitnessLevel[name]\<close> and \<^verbatim>\<open>Goal[name]\<close>: lookup by member name, KeyError otherwise.\<close>

definition FitnessLevel_getitem :: "string \<Rightarrow> error + FitnessLevel" where
  "FitnessLevel_getitem n =
     (if n = ''BEGINNER'' then Inr BEGINNER
      else if n = ''INTERMEDIATE'' then Inr INTERMEDIATE
      else if n = ''ADVANCED'' then Inr ADVANCED
      else if n = ''ELITE'' then Inr ELITE
      else Inl (KeyError n))"

definition Goal_getitem :: "string \<Rightarrow> error + Goal" where
  "Goal_getitem n =
     (if n = ''WEIGHT_LOSS'' then Inr WEIGHT_LOSS
      else if n = ''MUSCLE_GAIN'' then Inr MUSCLE_GAIN
      else if n = ''ENDURANCE'' then Inr ENDURANCE
      else if n = ''STRENGTH'' then Inr STRENGTH
      else if n = ''GENERAL_FITNESS'' then Inr GENERAL_FITNESS
      else if n = ''FLEXIBILITY'' then Inr FLEXIBILITY
      else Inl (KeyError n))"

section \<open>UserProfile\<close>

record UserProfile =
  user_id :: string
  age :: int
  weight :: rat
  height :: rat
  gender :: string
  activity_level :: string
  bmi :: rat
  bmi_category :: BMICategory
  fitness_level :: FitnessLevel
  goals :: "Goal list"
  health_conditions :: "string list"
  dietary_restrictions :: "string list"

text \<open>
  \<^verbatim>\<open>calculate_bmi\<close> reads \<^verbatim>\<open>self.weight\<close> and \<^verbatim>\<open>self.height\<close>; a float division by
  zero raises ZeroDivisionError. \<^verbatim>\<open>categorize_bmi\<close> reads \<^verbatim>\<open>self.bmi\<close>, the value
  \<^verbatim>\<open>__post_init__\<close> has just stored.
\<close>

definition calculate_bmi :: "rat \<Rightarrow> rat \<Rightarrow> error + rat" where
  "calculate_bmi w h =
     (let height_m = h / 100
      in if height_m ^ 2 = 0 then Inl ZeroDivisionError
         else Inr (round_nd (w / height_m ^ 2) 2))"

definition categorize_bmi :: "rat \<Rightarrow> BMICategory" where
  "categorize_bmi b =
     (if b < 37 / 2 then UNDERWEIGHT
      else if 37 / 2 \<le> b \<and> b < 25 then NORMAL
      else if 25 \<le> b \<and> b < 30 then OVERWEIGHT
      else if 30 \<le> b \<and> b < 35 then OBESE_1
      else if 35 \<le> b \<and> b < 40 then OBESE_2
      else OBESE_3)"

text \<open>
  The dataclass constructor followed by \<^verbatim>\<open>__post_init__\<close>: the derived fields are
  computed from weight and height, and a \<^verbatim>\<open>None\<close> list becomes the empty list.
\<close>

definition UserProfile_init ::
  "string \<Rightarrow> int \<Rightarrow> rat \<Rightarrow> rat \<Rightarrow> string \<Rightarrow> string \<Rightarrow> FitnessLevel \<Rightarrow> Goal list option \<Rightarrow>
   string list option \<Rightarrow> string list option \<Rightarrow> error + UserProfile" where
  "UserProfile_init uid a w h g act fl gs hc dr =
     (case calculate_bmi w h of
        Inl e \<Rightarrow> Inl e
      | Inr b \<Rightarrow>
          Inr \<lparr>user_id = uid, age = a, weight = w, height = h, gender = g,
               activity_level = act, bmi = b, bmi_category = categorize_bmi b,
               fitness_level = fl,
               goals = (case gs of None \<Rightarrow> [] | Some x \<Rightarrow> x),
               health_conditions = (case hc of None \<Rightarrow> [] | Some x \<Rightarrow> x),
               dietary_restrictions = (case dr of None \<Rightarrow> [] | Some x \<Rightarrow> x)\<rparr>)"

text \<open>
  The bands as the specification words them: below 18.5, then the half-open intervals
  [18.5, 25), [25, 30), [30, 35), [35, 40), then 40 and above.
\<close>

fun spec_band :: "BMICategory \<Rightarrow> rat \<Rightarrow> bool" where
  "spec_band UNDERWEIGHT b = (b < 37 / 2)"
| "spec_band NORMAL b = (37 / 2 \<le> b \<and> b < 25)"
| "spec_band OVERWEIGHT b = (25 \<le> b \<and> b < 30)"
| "spec_band OBESE_1 b = (30 \<le> b \<and> b < 35)"
| "spec_band OBESE_2 b = (35 \<le> b \<and> b < 40)"
| "spec_band OBESE_3 b = (40 \<le> b)"


section \<open>Strings\<close>

text \<open>
  A Python \<^verbatim>\<open>str\<close> is modelled as a list of 8-bit characters read as the code points
  0 to 255. \<^verbatim>\<open>str.lower\<close> maps A-Z and the accented capitals 192-222 (but not the
  multiplication sign 215) 32 places up; \<^verbatim>\<open>str.upper\<close> maps a-z and 224-254 (but not
  the division sign 247) 32 places down and the sharp s (223) to \<^verbatim>\<open>SS\<close>. The two
  letters whose capital lies beyond code point 255 (181 and 255) stay as they are, which
  keeps them different from every ASCII character, as their capitals are.
\<close>

definition lower_char :: "char \<Rightarrow> char" where
  "lower_char c =
     (let n = (of_char c :: nat)
      in if (65 \<le> n \<and> n \<le> 90) \<or> (192 \<le> n \<and> n \<le> 222 \<and> n \<noteq> 215)
         then char_of (n + 32) else c)"

definition lower :: "string \<Rightarrow> string" where
  "lower s = map lower_char s"

definition upper_char :: "char \<Rightarrow> string" where
  "upper_char c =
     (let n = (of_char c :: nat)
      in if (97 \<le> n \<and> n \<le> 122) \<or> (224 \<le> n \<and> n \<le> 254 \<and> n \<noteq> 247)
         then [char_of (n - 32)]
         else if n = 223 then ''SS'' else [c])"

definition upper :: "string \<Rightarrow> string" where
  "upper s = concat (map upper_char s)"

section \<open>NutritionCalculator\<close>

definition calculate_bmr :: "UserProfile \<Rightarrow> rat" where
  "calculate_bmr profile =
     (let bmr =
        (if lower (gender profile) = ''male''
         then 10 * weight profile + (625 / 100) * height profile - 5 * of_int (age profile) + 5
         else 10 * weight profile + (625 / 100) * height profile - 5 * of_int (age profile) - 161)
      in round_nd bmr 0)"

definition activity_multipliers :: "(string \<times> rat) list" where
  "activity_multipliers =
     [(''sedentary'', 12 / 10), (''light'', 1375 / 1000), (''moderate'', 155 / 100),
      (''active'', 1725 / 1000), (''very_active'', 19 / 10)]"

definition calculate_tdee :: "UserProfile \<Rightarrow> rat \<Rightarrow> rat" where
  "calculate_tdee profile bmr =
     (let multiplier =
        (case map_of activity_multipliers (activity_level profile) of
           Some m \<Rightarrow> m | None \<Rightarrow> 12 / 10)
      in round_nd (bmr * multiplier) 0)"

text \<open>The dictionary returned by \<^verbatim>\<open>calculate_macros\<close> has exactly these four keys.\<close>

record Macros =
  calories :: rat
  protein :: rat
  carbs :: rat
  fats :: rat

definition calculate_macros :: "UserProfile \<Rightarrow> rat \<Rightarrow> Macros" where
  "calculate_macros profile tdee =
     (let (calories, protein_ratio, fat_ratio, carb_ratio) =
        (if WEIGHT_LOSS \<in> set (goals profile)
         then (tdee - 500, 35 / 100, 25 / 100, 40 / 100)
         else if MUSCLE_GAIN \<in> set (goals profile)
         then (tdee + 300, 30 / 100, 25 / 100, 45 / 100)
         else (tdee, 25 / 100, 30 / 100, 45 / 100))
      in \<lparr>calories = round_nd calories 0,
          protein = round_nd ((calories * protein_ratio) / 4) 0,
          carbs = round_nd ((calories * carb_ratio) / 4) 0,
          fats = round_nd ((calories * fat_ratio) / 9) 0\<rparr>)"

text \<open>
  The specification's wording of the result: from a calorie target and three ratios,
  every entry is a nearest integer of its quotient (4 kcal per gram of protein and
  carbohydrate, 9 per gram of fat).
\<close>

definition nearest_int :: "rat \<Rightarrow> rat \<Rightarrow> bool" where
  "nearest_int r x = (r \<in> \<int> \<and> \<bar>r - x\<bar> \<le> 1 / 2)"

definition spec_macros :: "rat \<Rightarrow> rat \<Rightarrow> rat \<Rightarrow> rat \<Rightarrow> Macros \<Rightarrow> bool" where
  "spec_macros cal pr fr cr m =
     (nearest_int (calories m) cal \<and> nearest_int (protein m) (cal * pr / 4)
      \<and> nearest_int (carbs m) (cal * cr / 4) \<and> nearest_int (fats m) (cal * fr / 9))"

text \<open>The calories accounted for by the gram figures of a macro split.\<close>

definition macro_calories :: "Macros \<Rightarrow> rat" where
  "macro_calories m = 4 * protein m + 4 * carbs m + 9 * fats m"

text \<open>
  The profile that the script's main section builds from its \<^verbatim>\<open>sample_user\<close>
  (30 years, 85 kg, 175 cm, male, moderate activity, goals weight loss and muscle gain).
\<close>

definition sample_profile :: UserProfile where
  "sample_profile =
     \<lparr>user_id = ''test_user_1'', age = 30, weight = 85, height = 175, gender = ''male'',
      activity_level = ''moderate'', bmi = 2776 / 100, bmi_category = OVERWEIGHT,
      fitness_level = INTERMEDIATE, goals = [WEIGHT_LOSS, MUSCLE_GAIN],
      health_conditions = [], dietary_restrictions = []\<rparr>"

section \<open>IntentClassifier\<close>

text \<open>Python's \<^verbatim>\<open>keyword in text\<close> on strings: the keyword occurs as a contiguous run.\<close>

fun starts_with :: "string \<Rightarrow> string \<Rightarrow> bool" where
  "starts_with [] t = True"
| "starts_with (k # ks) [] = False"
| "starts_with (k # ks) (c # cs) = (k = c \<and> starts_with ks cs)"

fun py_in :: "string \<Rightarrow> string \<Rightarrow> bool" where
  "py_in kw [] = (kw = [])"
| "py_in kw (c # cs) = (starts_with kw (c # cs) \<or> py_in kw cs)"

text \<open>The \<^verbatim>\<open>patterns\<close> dictionary, in its insertion order, which is its iteration order.\<close>

definition patterns :: "(string \<times> string list) list" where
  "patterns =
     [(''greeting'', [''hi'', ''hello'', ''hey'', ''good morning'', ''good evening'']),
      (''bmi_query'', [''bmi'', ''body mass'', ''weight status'', ''am i overweight'']),
      (''diet_plan'', [''diet'', ''meal plan'', ''what to eat'', ''nutrition plan'', ''calories'']),
      (''workout_plan'', [''workout'', ''exercise'', ''training'', ''gym'', ''fitness routine'']),
      (''health_risk'', [''risk'', ''disease'', ''diabetes'', ''heart'', ''health problem'']),
      (''progress_tracking'', [''progress'', ''track'', ''measure'', ''improvement'', ''results'']),
      (''motivation'', [''motivate'', ''tired'', ''give up'', ''can't'', ''help me'']),
      (''nutrition_info'', [''protein'', ''carbs'', ''fats'', ''vitamins'', ''nutrients'']),
      (''goal_setting'', [''goal'', ''target'', ''achieve'', ''want to'', ''aim'']),
      (''supplement_info'', [''supplement'', ''vitamin'', ''whey'', ''creatine'', ''bcaa'']),
      (''injury_prevention'', [''injury'', ''pain'', ''hurt'', ''prevent'', ''safe'']),
      (''recovery'', [''recover'', ''rest'', ''sore'', ''muscle pain'', ''fatigue'']),
      (''sleep_advice'', [''sleep'', ''insomnia'', ''rest'', ''tired'', ''bedtime'']),
      (''hydration'', [''water'', ''drink'', ''hydration'', ''thirsty'', ''fluids''])]"

text \<open>\<^verbatim>\<open>any(keyword in text_lower for keyword in keywords)\<close> for one table entry.\<close>

definition entry_matches :: "string \<Rightarrow> string \<times> string list \<Rightarrow> bool" where
  "entry_matches text_lower e = list_ex (\<lambda>keyword. py_in keyword text_lower) (snd e)"

text \<open>The \<^verbatim>\<open>for\<close> loop over the table: return at the first entry that matches.\<close>

fun scan_patterns :: "(string \<times> string list) list \<Rightarrow> string \<Rightarrow> string \<times> rat" where
  "scan_patterns [] text_lower = (''general'', 5 / 10)"
| "scan_patterns (e # rest) text_lower =
     (if entry_matches text_lower e then (fst e, 8 / 10) else scan_patterns rest text_lower)"

definition rule_based_classify :: "string \<Rightarrow> string \<times> rat" where
  "rule_based_classify text = (let text_lower = lower text in scan_patterns patterns text_lower)"

text \<open>
  The classifier object. The fitted vectoriser and random forest belong to scikit-learn;
  what \<^verbatim>\<open>predict\<close> does with them (transform the text, take the predicted label and the
  largest class probability) is the field \<open>classifier\<close>, a function that may raise.
\<close>

record IntentClassifier =
  trained :: bool
  classifier :: "string \<Rightarrow> error + string \<times> rat"

definition predict :: "IntentClassifier \<Rightarrow> string \<Rightarrow> error + string \<times> rat" where
  "predict ic text =
     (if \<not> trained ic then Inr (rule_based_classify text)
      else classifier ic text)"

text \<open>The specification's notion of a substring.\<close>

definition is_substring :: "string \<Rightarrow> string \<Rightarrow> bool" where
  "is_substring kw t = (\<exists>pre suf. t = pre @ kw @ suf)"

text \<open>
  \<^verbatim>\<open>IntentClassifier.__init__\<close>: not trained; the scikit-learn objects are not fitted
  yet and raise when asked for a prediction.
\<close>

definition IntentClassifier_init :: IntentClassifier where
  "IntentClassifier_init =
     \<lparr>trained = False, classifier = (\<lambda>text. Inl (ModelFault ''NotFittedError''))\<rparr>"

section \<open>Python values\<close>

text \<open>
  Dictionaries that the program builds and hands on are association lists in insertion
  order with unique keys. \<open>PFmt\<close> is an f-string whose interpolated floats are kept as
  numbers instead of being printed. \<open>PText\<close> stands for the long reply text of a response
  builder: the builder's fixed template, named by the builder, filled in from the profile
  and, for the motivation builder, from the quote that was drawn.
\<close>

datatype pyval =
    PStr string
  | PNum rat
  | PBool bool
  | PList "pyval list"
  | PDict "(string \<times> pyval) list"
  | PFmt "pyval list"
  | PText string UserProfile "string list"

type_synonym pydict = "(string \<times> pyval) list"

text \<open>\<^verbatim>\<open>d[k] = v\<close>: replace the value of an existing key, else append a new entry.\<close>

fun py_setitem :: "pydict \<Rightarrow> string \<Rightarrow> pyval \<Rightarrow> pydict" where
  "py_setitem [] k v = [(k, v)]"
| "py_setitem (e # d) k v = (if fst e = k then (k, v) # d else e # py_setitem d k v)"

text \<open>\<^verbatim>\<open>d[k]\<close>: KeyError for a missing key.\<close>

definition py_getitem :: "pydict \<Rightarrow> string \<Rightarrow> error + pyval" where
  "py_getitem d k = (case map_of d k of None \<Rightarrow> Inl (KeyError k) | Some v \<Rightarrow> Inr v)"

text \<open>The decimal digits of a non-negative integer, as an f-string prints it.\<close>

fun str_nat :: "nat \<Rightarrow> string" where
  "str_nat n =
     (if n < 10 then [char_of (48 + n)]
      else str_nat (n div 10) @ [char_of (48 + n mod 10)])"

declare str_nat.simps [simp del]

section \<open>WorkoutPlanner\<close>

definition weight_loss_workout_types :: "(string \<times> string list) list" where
  "weight_loss_workout_types =
     [(''HIIT Cardio'', [''Burpees'', ''Jump squats'', ''Mountain climbers'', ''High knees'']),
      (''Circuit Training'', [''Push-ups'', ''Lunges'', ''Plank'', ''Jumping jacks'']),
      (''Steady Cardio'', [''Running'', ''Cycling'', ''Swimming'', ''Rowing'']),
      (''Full Body Strength'', [''Squats'', ''Deadlifts'', ''Bench press'', ''Rows'']),
      (''Core & Flexibility'', [''Plank variations'', ''Yoga flow'', ''Pilates'', ''Stretching''])]"

definition weight_loss_day :: "nat \<Rightarrow> string \<times> string list \<Rightarrow> pyval" where
  "weight_loss_day duration workout =
     PDict [(''type'', PStr (fst workout)),
            (''duration'', PStr (str_nat duration @ '' minutes'')),
            (''exercises'', PList (map PStr (snd workout))),
            (''sets'', PStr ''3-4''),
            (''reps'', PStr (if py_in ''Strength'' (fst workout) then ''12-15'' else ''Time-based'')),
            (''rest'', PStr ''30-45 seconds'')]"

definition generate_weight_loss_plan :: "nat \<Rightarrow> nat \<Rightarrow> pydict" where
  "generate_weight_loss_plan frequency duration =
     foldl (\<lambda>days i.
              let day_num = i + 1;
                  workout = weight_loss_workout_types ! (i mod length weight_loss_workout_types)
              in py_setitem days (''Day '' @ str_nat day_num) (weight_loss_day duration workout))
       [] [0..<frequency]"

definition muscle_gain_split :: "(string \<times> string \<times> string list) list" where
  "muscle_gain_split =
     [(''Push Day'', ''Chest, Shoulders, Triceps'',
         [''Bench Press'', ''Shoulder Press'', ''Dips'', ''Tricep Extensions'']),
      (''Pull Day'', ''Back, Biceps'', [''Deadlifts'', ''Pull-ups'', ''Rows'', ''Bicep Curls'']),
      (''Leg Day'', ''Quads, Hamstrings, Glutes'',
         [''Squats'', ''Leg Press'', ''Lunges'', ''Calf Raises'']),
      (''Upper Body'', ''All Upper'', [''Bench Press'', ''Rows'', ''Shoulder Press'', ''Pull-ups'']),
      (''Lower Body'', ''All Lower'', [''Squats'', ''Deadlifts'', ''Leg Curls'', ''Lunges''])]"

definition muscle_gain_day :: "nat \<Rightarrow> string \<times> string \<times> string list \<Rightarrow> pyval" where
  "muscle_gain_day duration workout =
     PDict [(''name'', PStr (fst workout)),
            (''muscles'', PStr (fst (snd workout))),
            (''duration'', PStr (str_nat duration @ '' minutes'')),
            (''exercises'', PList (map PStr (snd (snd workout)))),
            (''sets'', PStr ''4-5''),
            (''reps'', PStr ''6-12''),
            (''rest'', PStr ''60-90 seconds''),
            (''notes'',
               PStr ''Progressive overload - increase weight when you can do 12 reps easily'')]"

definition generate_muscle_gain_plan :: "nat \<Rightarrow> nat \<Rightarrow> pydict" where
  "generate_muscle_gain_plan frequency duration =
     foldl (\<lambda>days i.
              let day_num = i + 1;
                  workout = muscle_gain_split ! (i mod length muscle_gain_split)
              in py_setitem days (''Day '' @ str_nat day_num) (muscle_gain_day duration workout))
       [] [0..<frequency]"

definition endurance_workouts :: "(string \<times> string) list" where
  "endurance_workouts =
     [(''Long Slow Distance'', ''Zone 2 (60-70% max HR)''),
      (''Tempo Run'', ''Zone 3-4 (70-85% max HR)''),
      (''Interval Training'', ''Zone 4-5 (85-95% max HR)''),
      (''Recovery Run'', ''Zone 1-2 (50-65% max HR)''),
      (''Cross Training'', ''Moderate'')]"

definition endurance_day :: "nat \<Rightarrow> string \<times> string \<Rightarrow> pyval" where
  "endurance_day duration workout =
     PDict [(''type'', PStr (fst workout)),
            (''duration'', PStr (str_nat duration @ '' minutes'')),
            (''intensity'', PStr (snd workout)),
            (''notes'', PStr ''Monitor heart rate and stay in target zone'')]"

definition generate_endurance_plan :: "nat \<Rightarrow> nat \<Rightarrow> pydict" where
  "generate_endurance_plan frequency duration =
     foldl (\<lambda>days i.
              let day_num = i + 1;
                  workout = endurance_workouts ! (i mod length endurance_workouts)
              in py_setitem days (''Day '' @ str_nat day_num) (endurance_day duration workout))
       [] [0..<frequency]"

definition general_fitness_workouts :: "(string \<times> string) list" where
  "general_fitness_workouts =
     [(''Full Body Strength'', ''Compound movements''),
      (''Cardio'', ''Moderate intensity steady state''),
      (''Functional Training'', ''Movement patterns''),
      (''HIIT'', ''High intensity intervals''),
      (''Flexibility & Recovery'', ''Stretching and mobility'')]"

definition general_fitness_day :: "nat \<Rightarrow> string \<times> string \<Rightarrow> pyval" where
  "general_fitness_day duration workout =
     PDict [(''type'', PStr (fst workout)),
            (''focus'', PStr (snd workout)),
            (''duration'', PStr (str_nat duration @ '' minutes''))]"

definition generate_general_fitness_plan :: "nat \<Rightarrow> nat \<Rightarrow> pydict" where
  "generate_general_fitness_plan frequency duration =
     foldl (\<lambda>days i.
              let day_num = i + 1;
                  workout = general_fitness_workouts ! (i mod length general_fitness_workouts)
              in py_setitem days (''Day '' @ str_nat day_num) (general_fitness_day duration workout))
       [] [0..<frequency]"

definition generate_weekly_plan :: "UserProfile \<Rightarrow> pydict" where
  "generate_weekly_plan profile =
     (let (frequency, intensity, duration) =
            (if fitness_level profile = BEGINNER then (3, ''low-moderate'', 30)
             else if fitness_level profile = INTERMEDIATE then (4, ''moderate-high'', 45)
             else (5, ''high'', 60));
          head = str_nat frequency @ '' days/week, '' @ intensity @ '' intensity, '';
          (week_overview, days) =
            (if WEIGHT_LOSS \<in> set (goals profile)
             then (head @ ''focus on cardio and circuit training'',
                   generate_weight_loss_plan frequency duration)
             else if MUSCLE_GAIN \<in> set (goals profile)
             then (head @ ''focus on progressive overload'',
                   generate_muscle_gain_plan frequency duration)
             else if ENDURANCE \<in> set (goals profile)
             then (head @ ''focus on cardiovascular endurance'',
                   generate_endurance_plan frequency duration)
             else (head @ ''balanced fitness approach'',
                   generate_general_fitness_plan frequency duration))
      in [(''week_overview'', PStr week_overview),
          (''days'', PDict days),
          (''progression_tips'',
             PList [PStr ''Increase intensity by 5-10% each week'',
                    PStr ''Focus on proper form over weight/speed'',
                    PStr ''Track your workouts for progressive overload'',
                    PStr ''Listen to your body and rest when needed'']),
          (''recovery_advice'',
             PList [PStr ''Get 7-9 hours of sleep per night'',
                    PStr ''Stay hydrated (aim for 3-4L water daily)'',
                    PStr ''Include protein within 30 minutes post-workout'',
                    PStr ''Consider active recovery on rest days''])])"









section \<open>FitnessChatbot: tables and helpers\<close>

text \<open>\<^verbatim>\<open>health_risks_db\<close> has no entry for the normal category.\<close>

fun health_risks_db :: "BMICategory \<Rightarrow> (string \<times> string list) list option" where
  "health_risks_db UNDERWEIGHT =
     Some [(''risks'', [''Malnutrition'', ''Osteoporosis'', ''Weakened immune system'',
                        ''Fertility issues'']),
           (''recommendations'', [''Increase caloric intake'', ''Focus on nutrient-dense foods'',
                                  ''Strength training'', ''Regular health checkups''])]"
| "health_risks_db NORMAL = None"
| "health_risks_db OVERWEIGHT =
     Some [(''risks'', [''Type 2 diabetes'', ''High blood pressure'', ''Heart disease'',
                        ''Sleep apnea'']),
           (''recommendations'', [''Create caloric deficit'', ''Regular cardio exercise'',
                                  ''Balanced diet'', ''Monitor blood sugar''])]"
| "health_risks_db OBESE_1 =
     Some [(''risks'', [''Type 2 diabetes'', ''Cardiovascular disease'', ''Joint problems'',
                        ''Metabolic syndrome'']),
           (''recommendations'', [''Medical consultation'', ''Structured weight loss program'',
                                  ''Low-impact exercise'', ''Dietary counseling''])]"
| "health_risks_db OBESE_2 =
     Some [(''risks'', [''Severe cardiovascular risk'', ''Type 2 diabetes'', ''Sleep disorders'',
                        ''Joint degeneration'']),
           (''recommendations'', [''Medical supervision required'', ''Gradual weight loss'',
                                  ''Water-based exercises'', ''Psychological support''])]"
| "health_risks_db OBESE_3 =
     Some [(''risks'', [''Life-threatening conditions'', ''Severe diabetes risk'',
                        ''Cardiovascular failure'', ''Mobility issues'']),
           (''recommendations'', [''Immediate medical attention'', ''Bariatric consultation'',
                                  ''Supervised exercise'', ''Comprehensive health plan''])]"

text \<open>\<^verbatim>\<open>health_risks_db.get(category, {}).get(key, [])\<close>.\<close>

definition health_info_get :: "BMICategory \<Rightarrow> string \<Rightarrow> string list" where
  "health_info_get c k =
     (case health_risks_db c of
        None \<Rightarrow> []
      | Some health_info \<Rightarrow> (case map_of health_info k of None \<Rightarrow> [] | Some v \<Rightarrow> v))"

definition calculate_ideal_weight_range :: "rat \<Rightarrow> pydict" where
  "calculate_ideal_weight_range height_cm =
     (let height_m = height_cm / 100; min_bmi = 185 / 10; max_bmi = 249 / 10
      in [(''min_kg'', PNum (round_nd (min_bmi * height_m ^ 2) 1)),
          (''max_kg'', PNum (round_nd (max_bmi * height_m ^ 2) 1))])"

definition get_priority_actions :: "UserProfile \<Rightarrow> string list" where
  "get_priority_actions profile =
     (let actions1 =
            (if bmi_category profile \<in> set [OBESE_2, OBESE_3]
             then [''Consult with a healthcare provider immediately''] else []);
          actions2 =
            actions1 @
            (if bmi_category profile = UNDERWEIGHT
             then [''Increase caloric intake by 300-500 calories daily'']
             else if bmi_category profile \<in> set [OVERWEIGHT, OBESE_1]
             then [''Create a 500 calorie daily deficit for safe weight loss'']
             else []);
          actions3 =
            actions2 @
            (if activity_level profile \<in> set [''sedentary'', ''light'']
             then [''Increase daily activity to at least 30 minutes''] else []);
          actions4 =
            actions3 @
            [''Start tracking food intake and exercise'',
             ''Establish consistent sleep schedule (7-9 hours)'',
             ''Increase water intake to 2-3 liters daily'']
      in take 5 actions4)"

definition generate_meal_timing :: "UserProfile \<Rightarrow> pydict" where
  "generate_meal_timing profile =
     (if WEIGHT_LOSS \<in> set (goals profile)
      then [(''breakfast'', PStr ''7:00-8:00 AM''),
            (''snack_1'', PStr ''10:00 AM (optional)''),
            (''lunch'', PStr ''12:30-1:30 PM''),
            (''snack_2'', PStr ''3:30 PM (protein-based)''),
            (''dinner'', PStr ''6:30-7:30 PM''),
            (''notes'', PStr ''Avoid eating 3 hours before bed'')]
      else if MUSCLE_GAIN \<in> set (goals profile)
      then [(''breakfast'', PStr ''7:00 AM''),
            (''snack_1'', PStr ''10:00 AM''),
            (''lunch'', PStr ''1:00 PM''),
            (''pre_workout'', PStr ''3:30 PM''),
            (''post_workout'', PStr ''Within 30 min after training''),
            (''dinner'', PStr ''7:00 PM''),
            (''before_bed'', PStr ''9:30 PM (casein protein)''),
            (''notes'', PStr ''Frequent protein intake for muscle synthesis'')]
      else [(''breakfast'', PStr ''7:00-9:00 AM''),
            (''lunch'', PStr ''12:00-1:30 PM''),
            (''snack'', PStr ''3:00-4:00 PM (optional)''),
            (''dinner'', PStr ''6:30-8:00 PM''),
            (''notes'', PStr ''Maintain consistent meal times'')])"

definition get_food_suggestions :: "UserProfile \<Rightarrow> pydict" where
  "get_food_suggestions profile =
     (let proteins =
            (if ''vegetarian'' \<in> set (dietary_restrictions profile)
             then [''Tofu'', ''Legumes'', ''Quinoa'', ''Greek yogurt'', ''Eggs'']
             else if ''vegan'' \<in> set (dietary_restrictions profile)
             then [''Tofu'', ''Legumes'', ''Quinoa'', ''Tempeh'', ''Seitan'']
             else [''Chicken breast'', ''Fish'', ''Lean beef'', ''Eggs'', ''Greek yogurt''])
      in [(''proteins'', PList (map PStr proteins)),
          (''carbs'', PList (map PStr [''Brown rice'', ''Oats'', ''Sweet potato'', ''Quinoa'',
                                       ''Whole grain bread''])),
          (''fats'', PList (map PStr [''Avocado'', ''Nuts'', ''Olive oil'', ''Seeds'',
                                      ''Fatty fish''])),
          (''vegetables'', PList (map PStr [''Broccoli'', ''Spinach'', ''Bell peppers'',
                                            ''Cauliflower'', ''Zucchini''])),
          (''fruits'', PList (map PStr [''Berries'', ''Apples'', ''Oranges'', ''Bananas'',
                                        ''Kiwi'']))])"

definition generate_timeline :: "UserProfile \<Rightarrow> pydict" where
  "generate_timeline profile =
     [(''week_1_2'', PStr ''Adaptation phase - Focus on building habits''),
      (''week_3_4'', PStr ''Initial changes - Energy levels improve, slight weight change''),
      (''month_2'', PStr ''Visible progress - 2-4 kg weight change, strength gains''),
      (''month_3'',
         PStr ''Significant results - 4-8 kg total change, body composition improvements''),
      (''month_6'',
         PStr ''Transformation - Major health improvements, sustainable lifestyle established'')]"

definition macros_dict :: "Macros \<Rightarrow> pydict" where
  "macros_dict m =
     [(''calories'', PNum (calories m)), (''protein'', PNum (protein m)),
      (''carbs'', PNum (carbs m)), (''fats'', PNum (fats m))]"

section \<open>FitnessChatbot: response builders\<close>

text \<open>
  Every builder returns a dictionary with the keys of the source, in the source's order.
  The value under \<open>response\<close> is the builder's reply text (see \<open>PText\<close>); the value
  under \<open>data\<close> is spelled out. No builder reads the message.
\<close>

definition handle_greeting :: "UserProfile \<Rightarrow> string \<Rightarrow> pydict" where
  "handle_greeting profile message =
     (let bmr = calculate_bmr profile
      in [(''response'', PText ''greeting'' profile []),
          (''suggestions'',
             PList [PStr ''Show me my diet plan'', PStr ''Create a workout routine'',
                    PStr ''What are my health risks?'', PStr ''How can I lose weight?'']),
          (''data'',
             PDict [(''bmi'', PNum (bmi profile)),
                    (''category'', PStr (BMICategory_value (bmi_category profile))),
                    (''bmr'', PNum bmr)])])"

definition handle_bmi_query :: "UserProfile \<Rightarrow> string \<Rightarrow> pydict" where
  "handle_bmi_query profile message =
     (let ideal_range = calculate_ideal_weight_range (height profile)
      in [(''response'', PText ''bmi_query'' profile []),
          (''data'',
             PDict [(''bmi'', PNum (bmi profile)),
                    (''category'', PStr (BMICategory_value (bmi_category profile))),
                    (''ideal_range'', PDict ideal_range),
                    (''risks'', PList (map PStr (health_info_get (bmi_category profile) ''risks''))),
                    (''recommendations'',
                       PList (map PStr
                                (health_info_get (bmi_category profile) ''recommendations'')))])])"

definition handle_diet_plan :: "UserProfile \<Rightarrow> string \<Rightarrow> pydict" where
  "handle_diet_plan profile message =
     (let bmr = calculate_bmr profile;
          tdee = calculate_tdee profile bmr;
          macros = calculate_macros profile tdee;
          meal_timing = generate_meal_timing profile;
          foods = get_food_suggestions profile
      in [(''response'', PText ''diet_plan'' profile []),
          (''data'',
             PDict [(''bmr'', PNum bmr),
                    (''tdee'', PNum tdee),
                    (''macros'', PDict (macros_dict macros)),
                    (''meal_timing'', PDict meal_timing),
                    (''food_suggestions'', PDict foods)])])"

definition handle_workout_plan :: "UserProfile \<Rightarrow> string \<Rightarrow> pydict" where
  "handle_workout_plan profile message =
     (let plan = generate_weekly_plan profile
      in [(''response'', PText ''workout_plan'' profile []),
          (''data'', PDict plan)])"

definition handle_health_risk :: "UserProfile \<Rightarrow> string \<Rightarrow> pydict" where
  "handle_health_risk profile message =
     (let priority_actions = get_priority_actions profile
      in [(''response'', PText ''health_risk'' profile []),
          (''data'',
             PDict [(''risks'', PList (map PStr (health_info_get (bmi_category profile) ''risks''))),
                    (''recommendations'',
                       PList (map PStr
                                (health_info_get (bmi_category profile) ''recommendations''))),
                    (''priority_actions'', PList (map PStr priority_actions))])])"

definition handle_progress_tracking :: "UserProfile \<Rightarrow> string \<Rightarrow> pydict" where
  "handle_progress_tracking profile message =
     [(''response'', PText ''progress_tracking'' profile []),
      (''data'',
         PDict [(''metrics'',
                   PList (map PStr [''weight'', ''measurements'', ''photos'', ''performance'',
                                    ''energy'', ''sleep''])),
                (''timeline'', PDict (generate_timeline profile))])]"

definition motivational_quotes :: "string list" where
  "motivational_quotes =
     [''Every workout counts, no matter how small!'',
      ''You're not just building a better body, you're building a better life.'',
      ''Progress is progress, no matter how slow.'',
      ''The only bad workout is the one that didn't happen.'',
      ''Your future self will thank you for starting today.'']"

text \<open>
  \<^verbatim>\<open>random.choice\<close> draws one element of a non-empty list; the draw is the argument
  \<open>rnd\<close>, reduced modulo the length.
\<close>

definition handle_motivation :: "nat \<Rightarrow> UserProfile \<Rightarrow> string \<Rightarrow> pydict" where
  "handle_motivation rnd profile message =
     (let quote = motivational_quotes ! (rnd mod length motivational_quotes)
      in [(''response'', PText ''motivation'' profile [quote]),
          (''data'',
             PDict [(''quote'', PStr quote),
                    (''goals'', PList (map (\<lambda>g. PStr (Goal_value g)) (goals profile)))])])"

definition handle_nutrition_info :: "UserProfile \<Rightarrow> string \<Rightarrow> pydict" where
  "handle_nutrition_info profile message =
     [(''response'', PText ''nutrition_info'' profile []),
      (''data'',
         PDict [(''macros_info'',
                   PDict [(''protein_per_kg'', PNum (18 / 10)),
                          (''fat_percentage'', PNum 25),
                          (''carb_percentage'', PNum 45)])])]"

definition handle_goal_setting :: "UserProfile \<Rightarrow> string \<Rightarrow> pydict" where
  "handle_goal_setting profile message =
     (let current_goals = map Goal_value (goals profile)
      in [(''response'', PText ''goal_setting'' profile []),
          (''data'',
             PDict [(''current_goals'', PList (map PStr current_goals)),
                    (''suggested_targets'',
                       PDict [(''short_term'', PStr ''2-4 kg in 4 weeks''),
                              (''medium_term'', PStr ''6-12 kg in 12 weeks''),
                              (''long_term'', PStr ''Complete transformation in 6 months'')])])])"

definition handle_supplement_info :: "UserProfile \<Rightarrow> string \<Rightarrow> pydict" where
  "handle_supplement_info profile message =
     [(''response'', PText ''supplement_info'' profile []),
      (''data'',
         PDict [(''basic'', PList (map PStr [''Multivitamin'', ''Vitamin D3'', ''Omega-3''])),
                (''performance'', PList (map PStr [''Whey Protein'', ''Creatine'', ''Caffeine''])),
                (''goal_specific'',
                   PStr (case goals profile of [] \<Rightarrow> ''general'' | g # gs \<Rightarrow> Goal_value g))])]"

definition handle_injury_prevention :: "UserProfile \<Rightarrow> string \<Rightarrow> pydict" where
  "handle_injury_prevention profile message =
     [(''response'', PText ''injury_prevention'' profile []),
      (''data'',
         PDict [(''warm_up_time'', PStr ''5-10 minutes''),
                (''cool_down_time'', PStr ''5-10 minutes''),
                (''rest_days_per_week'', PStr ''1-2'')])]"

definition handle_recovery :: "UserProfile \<Rightarrow> string \<Rightarrow> pydict" where
  "handle_recovery profile message =
     [(''response'', PText ''recovery'' profile []),
      (''data'',
         PDict [(''sleep_hours'', PStr ''7-9''),
                (''protein_per_kg'', PStr ''1.6-2.2g''),
                (''hydration_per_kg'', PStr ''35-40ml'')])]"

text \<open>The room temperature string contains the degree sign, code point 176.\<close>

definition handle_sleep_advice :: "UserProfile \<Rightarrow> string \<Rightarrow> pydict" where
  "handle_sleep_advice profile message =
     [(''response'', PText ''sleep_advice'' profile []),
      (''data'',
         PDict [(''optimal_hours'', PStr ''7-9''),
                (''room_temp'', PStr (''18-20'' @ [char_of (176 :: nat)] @ ''C'')),
                (''meal_cutoff'', PStr ''3 hours before bed'')])]"

definition handle_hydration :: "UserProfile \<Rightarrow> string \<Rightarrow> pydict" where
  "handle_hydration profile message =
     (let daily_water = round_nd (weight profile * (35 / 1000)) 1;
          exercise_water = round_nd (weight profile * (5 / 1000)) 1
      in [(''response'', PText ''hydration'' profile []),
          (''data'',
             PDict [(''daily_intake'', PFmt [PNum daily_water, PStr ''L'']),
                    (''exercise_addition'', PFmt [PNum exercise_water, PStr ''L per hour'']),
                    (''total_training_day'',
                       PFmt [PNum (daily_water + exercise_water), PStr ''L''])])])"

definition handle_general :: "UserProfile \<Rightarrow> string \<Rightarrow> pydict" where
  "handle_general profile message =
     [(''response'', PText ''general'' profile []),
      (''data'',
         PDict [(''services'',
                   PList (map PStr [''Diet Planning'', ''Workout Routines'', ''Health Assessment'',
                                    ''Progress Tracking'', ''Supplements'', ''Injury Prevention'',
                                    ''Recovery'', ''Sleep'', ''Hydration''])),
                (''user_status'',
                   PDict [(''bmi'', PNum (bmi profile)),
                          (''fitness_level'', PStr (FitnessLevel_value (fitness_level profile))),
                          (''goals'',
                             PList (map (\<lambda>g. PStr (Goal_value g)) (goals profile)))])])]"

text \<open>The dispatch table of \<^verbatim>\<open>_generate_intent_response\<close>; any other intent goes to the general builder.\<close>

definition responses :: "nat \<Rightarrow> (string \<times> (UserProfile \<Rightarrow> string \<Rightarrow> pydict)) list" where
  "responses rnd =
     [(''greeting'', handle_greeting),
      (''bmi_query'', handle_bmi_query),
      (''diet_plan'', handle_diet_plan),
      (''workout_plan'', handle_workout_plan),
      (''health_risk'', handle_health_risk),
      (''progress_tracking'', handle_progress_tracking),
      (''motivation'', handle_motivation rnd),
      (''nutrition_info'', handle_nutrition_info),
      (''goal_setting'', handle_goal_setting),
      (''supplement_info'', handle_supplement_info),
      (''injury_prevention'', handle_injury_prevention),
      (''recovery'', handle_recovery),
      (''sleep_advice'', handle_sleep_advice),
      (''hydration'', handle_hydration)]"

definition generate_intent_response ::
  "nat \<Rightarrow> UserProfile \<Rightarrow> string \<Rightarrow> string \<Rightarrow> pydict" where
  "generate_intent_response rnd profile intent message =
     (let handler = (case map_of (responses rnd) intent of
                       Some h \<Rightarrow> h | None \<Rightarrow> handle_general)
      in handler profile message)"

section \<open>FitnessChatbot: state, profile creation and message processing\<close>

record FitnessChatbot =
  intent_classifier :: IntentClassifier
  user_profiles :: "string \<rightharpoonup> UserProfile"
  conversation_history :: "string \<rightharpoonup> pydict list"

definition FitnessChatbot_init :: FitnessChatbot where
  "FitnessChatbot_init =
     \<lparr>intent_classifier = IntentClassifier_init,
      user_profiles = Map.empty,
      conversation_history = Map.empty\<rparr>"

text \<open>
  The \<^verbatim>\<open>user_data\<close> dictionary: the five keys that \<^verbatim>\<open>create_user_profile\<close> indexes are
  present with values of the annotated types; the five keys it reads with \<^verbatim>\<open>get\<close> may be
  absent.
\<close>

record UserData =
  ud_user_id :: string
  ud_age :: int
  ud_weight :: rat
  ud_height :: rat
  ud_gender :: string
  ud_activity_level :: "string option"
  ud_fitness_level :: "string option"
  ud_goals :: "string list option"
  ud_health_conditions :: "string list option"
  ud_dietary_restrictions :: "string list option"

text \<open>\<^verbatim>\<open>[Goal[g.upper()] for g in ...]\<close>: the first name that is no member raises.\<close>

fun goals_of_names :: "string list \<Rightarrow> error + Goal list" where
  "goals_of_names [] = Inr []"
| "goals_of_names (g # gs) =
     (case Goal_getitem (upper g) of
        Inl e \<Rightarrow> Inl e
      | Inr x \<Rightarrow> (case goals_of_names gs of Inl e \<Rightarrow> Inl e | Inr xs \<Rightarrow> Inr (x # xs)))"

definition create_user_profile ::
  "FitnessChatbot \<Rightarrow> UserData \<Rightarrow> (error + UserProfile) \<times> FitnessChatbot" where
  "create_user_profile self user_data =
     (case FitnessLevel_getitem
             (upper (case ud_fitness_level user_data of None \<Rightarrow> ''BEGINNER'' | Some x \<Rightarrow> x)) of
        Inl e \<Rightarrow> (Inl e, self)
      | Inr fl \<Rightarrow>
          (case goals_of_names
                  (case ud_goals user_data of None \<Rightarrow> [''GENERAL_FITNESS''] | Some x \<Rightarrow> x) of
             Inl e \<Rightarrow> (Inl e, self)
           | Inr gs \<Rightarrow>
               (case UserProfile_init (ud_user_id user_data) (ud_age user_data)
                       (ud_weight user_data) (ud_height user_data) (ud_gender user_data)
                       (case ud_activity_level user_data of None \<Rightarrow> ''moderate'' | Some x \<Rightarrow> x)
                       fl (Some gs)
                       (Some (case ud_health_conditions user_data of None \<Rightarrow> [] | Some x \<Rightarrow> x))
                       (Some (case ud_dietary_restrictions user_data of None \<Rightarrow> [] | Some x \<Rightarrow> x)) of
                  Inl e \<Rightarrow> (Inl e, self)
                | Inr profile \<Rightarrow>
                    (Inr profile,
                     self\<lparr>user_profiles := (user_profiles self)(ud_user_id user_data \<mapsto> profile)\<rparr>))))"

text \<open>
  \<^verbatim>\<open>process_message\<close>. The clock reading \<^verbatim>\<open>datetime.now().isoformat()\<close> is the argument
  \<open>now\<close> and the random draw of the motivation builder is \<open>rnd\<close>. An exception leaves
  the function at the statement that raised it, with the updates made so far.
\<close>

definition process_message ::
  "FitnessChatbot \<Rightarrow> string \<Rightarrow> string \<Rightarrow> string \<Rightarrow> nat \<Rightarrow> (error + pydict) \<times> FitnessChatbot" where
  "process_message self uid message now rnd =
     (case user_profiles self uid of
        None \<Rightarrow>
          (Inr [(''response'',
                   PStr ''I need your basic information first. Please provide your age, weight, height, and gender.''),
                (''requires_profile'', PBool True)],
           self)
      | Some profile \<Rightarrow>
          (case predict (intent_classifier self) message of
             Inl e \<Rightarrow> (Inl e, self)
           | Inr (intent, confidence) \<Rightarrow>
               (let response_data = generate_intent_response rnd profile intent message;
                    history = (case conversation_history self uid of
                                 None \<Rightarrow> [] | Some h \<Rightarrow> h);
                    self1 = self\<lparr>conversation_history :=
                                   (conversation_history self)(uid \<mapsto> history)\<rparr>
                in case py_getitem response_data ''response'' of
                     Inl e \<Rightarrow> (Inl e, self1)
                   | Inr response \<Rightarrow>
                       (Inr response_data,
                        self1\<lparr>conversation_history :=
                                 (conversation_history self1)
                                   (uid \<mapsto>
                                      history @
                                      [[(''timestamp'', PStr now),
                                        (''message'', PStr message),
                                        (''intent'', PStr intent),
                                        (''response'', response)]])\<rparr>))))"

text \<open>The \<^verbatim>\<open>sample_user\<close> dictionary of the script's main section.\<close>

definition sample_user :: UserData where
  "sample_user =
     \<lparr>ud_user_id = ''test_user_1'', ud_age = 30, ud_weight = 85, ud_height = 175,
      ud_gender = ''male'', ud_activity_level = Some ''moderate'',
      ud_fitness_level = Some ''intermediate'',
      ud_goals = Some [''weight_loss'', ''muscle_gain''],
      ud_health_conditions = Some [], ud_dietary_restrictions = Some []\<rparr>"




text \<open>
  A trained classifier whose scikit-learn model raises on every text, to observe what
  \<^verbatim>\<open>predict\<close> does with a failure of the trained strategy.
\<close>

definition failing_classifier :: IntentClassifier where
  "failing_classifier =
     \<lparr>trained = True, classifier = (\<lambda>text. Inl (ModelFault ''predict''))\<rparr>"

section \<open>Rounding lemmas\<close>

lemma py_round_near: "\<bar>of_int (py_round x) - x\<bar> \<le> 1 / 2"
proof -
  have "of_int \<lfloor>x\<rfloor> \<le> x" and "x < of_int \<lfloor>x\<rfloor> + 1"
    by linarith+
  then show ?thesis
    by (auto simp: py_round_def Let_def abs_le_iff)
qed

lemma py_round_of_int: "py_round (of_int n) = n"
  by (simp add: py_round_def)



section \<open>BMI categorisation\<close>

lemma categorize_bmi_band: "spec_band c b = (categorize_bmi b = c)"
  by (cases c) (auto simp: categorize_bmi_def)

lemma UserProfile_init_bmi:
  assumes "UserProfile_init uid a w h g act fl gs hc dr = Inr p"
  shows "h \<noteq> 0" and "bmi p = round_nd (w / (h / 100) ^ 2) 2"
    and "bmi_category p = categorize_bmi (bmi p)"
  using assms
  by (auto simp: UserProfile_init_def calculate_bmi_def Let_def split: if_splits sum.splits)

text \<open>
  Claim C2. BMI categorisation is a total step function of the BMI with non-overlapping
  bands: a category is the one returned exactly when the BMI lies in that category's band
  (below 18.5, [18.5, 25), [25, 30), [30, 35), [35, 40), 40 and above), so exactly one band
  applies to every BMI; each boundary value 18.5, 25, 30, 35, 40 belongs to the band that
  starts at it; and every constructed profile stores the category of the band of its BMI.
\<close>

theorem categorize_bmi_step_function:
  "spec_band c b = (categorize_bmi b = c)
   \<and> categorize_bmi (37 / 2) = NORMAL
   \<and> categorize_bmi 25 = OVERWEIGHT
   \<and> categorize_bmi 30 = OBESE_1
   \<and> categorize_bmi 35 = OBESE_2
   \<and> categorize_bmi 40 = OBESE_3
   \<and> (UserProfile_init uid a w h g act fl gs hc dr = Inr p
        \<longrightarrow> spec_band c (bmi p) = (bmi_category p = c))"
proof -
  have "UserProfile_init uid a w h g act fl gs hc dr = Inr p
          \<longrightarrow> spec_band c (bmi p) = (bmi_category p = c)"
    using UserProfile_init_bmi(3) categorize_bmi_band by metis
  moreover have "categorize_bmi (37 / 2) = NORMAL" "categorize_bmi 25 = OVERWEIGHT"
    "categorize_bmi 30 = OBESE_1" "categorize_bmi 35 = OBESE_2" "categorize_bmi 40 = OBESE_3"
    by (simp_all add: categorize_bmi_def)
  ultimately show ?thesis
    using categorize_bmi_band by blast
qed

theorem categorize_bmi_step_function_witness:
  "UserProfile_init ''u1'' 30 85 175 ''male'' ''moderate'' BEGINNER None None None
     = Inr \<lparr>user_id = ''u1'', age = 30, weight = 85, height = 175, gender = ''male'',
            activity_level = ''moderate'', bmi = 694 / 25, bmi_category = OVERWEIGHT,
            fitness_level = BEGINNER, goals = [], health_conditions = [],
            dietary_restrictions = []\<rparr>
   \<and> spec_band OVERWEIGHT (694 / 25) \<and> categorize_bmi (694 / 25) = OVERWEIGHT"
proof -
  have init: "UserProfile_init ''u1'' 30 85 175 ''male'' ''moderate'' BEGINNER None None None
     = Inr \<lparr>user_id = ''u1'', age = 30, weight = 85, height = 175, gender = ''male'',
            activity_level = ''moderate'', bmi = 694 / 25, bmi_category = OVERWEIGHT,
            fitness_level = BEGINNER, goals = [], health_conditions = [],
            dietary_restrictions = []\<rparr>"
    by code_simp
  show ?thesis
    using init categorize_bmi_step_function [of OVERWEIGHT "694 / 25" "''u1''" 30 85 175
        "''male''" "''moderate''" BEGINNER None None None]
    by simp
qed



section \<open>Macro split\<close>


lemma round_nd0: "round_nd x 0 = of_int (py_round x)"
  by (simp add: round_nd_def)

lemma nearest_int_round: "nearest_int (round_nd x 0) x"
  using py_round_near [of x] by (simp add: nearest_int_def round_nd0)

lemma py_round_half_odd:
  assumes "\<bar>of_int (py_round x) - x\<bar> = 1 / 2"
  shows "\<exists>k::int. 2 * x = of_int (2 * k + 1)"
proof (cases "of_int (py_round x) \<le> x")
  case True
  with assms have "2 * x = of_int (2 * py_round x + 1)"
    by simp
  then show ?thesis ..
next
  case False
  with assms have "2 * x = of_int (2 * (py_round x - 1) + 1)"
    by simp
  then show ?thesis ..
qed

lemma macro_deviation_lt:
  fixes cal x y z :: rat
  assumes split: "cal = 4 * x + 4 * y + 9 * z"
    and nohalf: "\<not> (\<bar>of_int (py_round cal) - cal\<bar> = 1 / 2 \<and> \<bar>of_int (py_round x) - x\<bar> = 1 / 2)"
  shows "\<bar>of_int (py_round cal)
          - (4 * of_int (py_round x) + 4 * of_int (py_round y) + 9 * of_int (py_round z))\<bar> < (9::rat)"
proof -
  have "\<bar>of_int (py_round cal) - cal\<bar> \<le> 1 / 2" "\<bar>of_int (py_round x) - x\<bar> \<le> 1 / 2"
    "\<bar>of_int (py_round y) - y\<bar> \<le> 1 / 2" "\<bar>of_int (py_round z) - z\<bar> \<le> 1 / 2"
    by (rule py_round_near)+
  moreover have "\<bar>of_int (py_round cal) - cal\<bar> < 1 / 2 \<or> \<bar>of_int (py_round x) - x\<bar> < 1 / 2"
    using nohalf calculation(1,2) by linarith
  ultimately show ?thesis
    using split by linarith
qed

lemma int_abs_lt_9:
  fixes d :: int
  assumes "\<bar>(of_int d :: rat)\<bar> < 9"
  shows "\<bar>(of_int d :: rat)\<bar> \<le> 8"
proof -
  have "\<bar>(of_int d :: rat)\<bar> < of_int 9"
    using assms by simp
  then have "\<bar>d\<bar> < 9"
    unfolding of_int_abs [symmetric] of_int_less_iff .
  then have "\<bar>d\<bar> \<le> 8"
    by simp
  then have "(of_int \<bar>d\<bar> :: rat) \<le> of_int 8"
    unfolding of_int_le_iff .
  then show ?thesis
    by simp
qed

lemma no_double_half:
  fixes cal :: rat and q :: int
  assumes "even q" and "odd p"
    and a: "2 * cal = of_int (2 * a + 1)" and b: "2 * (cal * of_int p / of_int q) = of_int (2 * b + 1)"
    and "q \<noteq> 0"
  shows False
proof -
  have "of_int p * (2 * cal) = (of_int q :: rat) * of_int (2 * b + 1)"
    using b \<open>q \<noteq> 0\<close> by (simp add: field_simps)
  then have "(of_int (p * (2 * a + 1)) :: rat) = of_int (q * (2 * b + 1))"
    using a by simp
  then have "p * (2 * a + 1) = q * (2 * b + 1)"
    unfolding of_int_eq_iff .
  moreover have "odd (p * (2 * a + 1))"
    using \<open>odd p\<close> by simp
  moreover have "even (q * (2 * b + 1))"
    using \<open>even q\<close> by simp
  ultimately show False
    by simp
qed

lemma calculate_macros_weight_loss:
  assumes "WEIGHT_LOSS \<in> set (goals p)"
  shows "calculate_macros p tdee =
           \<lparr>calories = round_nd (tdee - 500) 0,
            protein = round_nd (((tdee - 500) * (35 / 100)) / 4) 0,
            carbs = round_nd (((tdee - 500) * (40 / 100)) / 4) 0,
            fats = round_nd (((tdee - 500) * (25 / 100)) / 9) 0\<rparr>"
  using assms by (simp add: calculate_macros_def)

lemma calculate_macros_muscle_gain:
  assumes "WEIGHT_LOSS \<notin> set (goals p)" and "MUSCLE_GAIN \<in> set (goals p)"
  shows "calculate_macros p tdee =
           \<lparr>calories = round_nd (tdee + 300) 0,
            protein = round_nd (((tdee + 300) * (30 / 100)) / 4) 0,
            carbs = round_nd (((tdee + 300) * (45 / 100)) / 4) 0,
            fats = round_nd (((tdee + 300) * (25 / 100)) / 9) 0\<rparr>"
  using assms by (simp add: calculate_macros_def)

lemma calculate_macros_default:
  assumes "WEIGHT_LOSS \<notin> set (goals p)" and "MUSCLE_GAIN \<notin> set (goals p)"
  shows "calculate_macros p tdee =
           \<lparr>calories = round_nd tdee 0,
            protein = round_nd ((tdee * (25 / 100)) / 4) 0,
            carbs = round_nd ((tdee * (45 / 100)) / 4) 0,
            fats = round_nd ((tdee * (30 / 100)) / 9) 0\<rparr>"
  using assms by (simp add: calculate_macros_def)

lemma spec_macros_round:
  "spec_macros cal pr fr cr
     \<lparr>calories = round_nd cal 0, protein = round_nd ((cal * pr) / 4) 0,
      carbs = round_nd ((cal * cr) / 4) 0, fats = round_nd ((cal * fr) / 9) 0\<rparr>"
  by (simp add: spec_macros_def nearest_int_round)

lemma round_nd0_Ints: "x \<in> \<int> \<Longrightarrow> round_nd x 0 = x"
  by (auto simp: round_nd0 py_round_of_int elim: Ints_cases)

lemma macros_record_deviation:
  fixes cal :: rat and p q :: int
  assumes ratios: "of_int p / of_int q + cr + fr = (1::rat)" and "even q" "odd p" "q \<noteq> 0"
  shows "\<bar>calories \<lparr>calories = round_nd cal 0, protein = round_nd ((cal * (of_int p / of_int q)) / 4) 0,
             carbs = round_nd ((cal * cr) / 4) 0, fats = round_nd ((cal * fr) / 9) 0\<rparr>
          - macro_calories \<lparr>calories = round_nd cal 0,
             protein = round_nd ((cal * (of_int p / of_int q)) / 4) 0,
             carbs = round_nd ((cal * cr) / 4) 0, fats = round_nd ((cal * fr) / 9) 0\<rparr>\<bar> \<le> 8"
proof -
  let ?x = "(cal * (of_int p / of_int q)) / 4" and ?y = "(cal * cr) / 4" and ?z = "(cal * fr) / 9"
  have split: "cal = 4 * ?x + 4 * ?y + 9 * ?z"
  proof -
    have "4 * ?x + 4 * ?y + 9 * ?z = cal * (of_int p / of_int q + cr + fr)"
      by (simp add: algebra_simps)
    then show ?thesis
      by (simp add: ratios)
  qed
  have nohalf: "\<not> (\<bar>of_int (py_round cal) - cal\<bar> = 1 / 2 \<and> \<bar>of_int (py_round ?x) - ?x\<bar> = 1 / 2)"
  proof
    assume h: "\<bar>of_int (py_round cal) - cal\<bar> = 1 / 2 \<and> \<bar>of_int (py_round ?x) - ?x\<bar> = 1 / 2"
    then obtain a b :: int where a: "2 * cal = of_int (2 * a + 1)"
      and b: "2 * ?x = of_int (2 * b + 1)"
      using py_round_half_odd by blast
    have "2 * (cal * of_int p / of_int (4 * q)) = of_int (2 * b + 1)"
      using b by simp
    with a show False
      using no_double_half [of "4 * q" p cal a b] assms(2-4) by simp
  qed
  have "\<bar>of_int (py_round cal)
          - (4 * of_int (py_round ?x) + 4 * of_int (py_round ?y) + 9 * of_int (py_round ?z))\<bar> < (9::rat)"
    using split nohalf by (rule macro_deviation_lt)
  then have "\<bar>(of_int (py_round cal
          - (4 * py_round ?x + 4 * py_round ?y + 9 * py_round ?z)) :: rat)\<bar> < 9"
    by simp
  then have "\<bar>(of_int (py_round cal
          - (4 * py_round ?x + 4 * py_round ?y + 9 * py_round ?z)) :: rat)\<bar> \<le> 8"
    by (rule int_abs_lt_9)
  then show ?thesis
    by (simp add: macro_calories_def round_nd0)
qed

text \<open>
  Claim C5. For every profile and every tdee, \<^verbatim>\<open>calculate_macros\<close> returns a result (it
  is a total function with no failing branch) chosen by the first matching goal: with
  weight loss among the goals the calorie target is tdee - 500 and the ratios are protein
  0.35, fat 0.25, carbohydrate 0.40, also when muscle gain is present; otherwise with
  muscle gain it is tdee + 300 with 0.30 / 0.25 / 0.45; otherwise tdee with
  0.25 / 0.30 / 0.45. Protein and carbohydrate grams are a nearest integer of
  target * ratio / 4, fat grams of target * ratio / 9, and the calories entry is a nearest
  integer of the target, hence the target itself when tdee is a whole number.
\<close>

theorem calculate_macros_first_match:
  "(WEIGHT_LOSS \<in> set (goals p) \<longrightarrow>
      spec_macros (tdee - 500) (35 / 100) (25 / 100) (40 / 100) (calculate_macros p tdee)
      \<and> (tdee \<in> \<int> \<longrightarrow> calories (calculate_macros p tdee) = tdee - 500))
   \<and> (WEIGHT_LOSS \<notin> set (goals p) \<and> MUSCLE_GAIN \<in> set (goals p) \<longrightarrow>
      spec_macros (tdee + 300) (30 / 100) (25 / 100) (45 / 100) (calculate_macros p tdee)
      \<and> (tdee \<in> \<int> \<longrightarrow> calories (calculate_macros p tdee) = tdee + 300))
   \<and> (WEIGHT_LOSS \<notin> set (goals p) \<and> MUSCLE_GAIN \<notin> set (goals p) \<longrightarrow>
      spec_macros tdee (25 / 100) (30 / 100) (45 / 100) (calculate_macros p tdee)
      \<and> (tdee \<in> \<int> \<longrightarrow> calories (calculate_macros p tdee) = tdee))"
proof (intro conjI impI)
  assume wl: "WEIGHT_LOSS \<in> set (goals p)"
  show "spec_macros (tdee - 500) (35 / 100) (25 / 100) (40 / 100) (calculate_macros p tdee)"
    unfolding calculate_macros_weight_loss [OF wl] by (rule spec_macros_round)
  show "calories (calculate_macros p tdee) = tdee - 500" if "tdee \<in> \<int>"
    using that by (simp add: calculate_macros_weight_loss [OF wl] round_nd0_Ints)
next
  assume mg: "WEIGHT_LOSS \<notin> set (goals p) \<and> MUSCLE_GAIN \<in> set (goals p)"
  then have eq: "calculate_macros p tdee =
           \<lparr>calories = round_nd (tdee + 300) 0,
            protein = round_nd (((tdee + 300) * (30 / 100)) / 4) 0,
            carbs = round_nd (((tdee + 300) * (45 / 100)) / 4) 0,
            fats = round_nd (((tdee + 300) * (25 / 100)) / 9) 0\<rparr>"
    by (intro calculate_macros_muscle_gain) auto
  show "spec_macros (tdee + 300) (30 / 100) (25 / 100) (45 / 100) (calculate_macros p tdee)"
    unfolding eq by (rule spec_macros_round)
  show "calories (calculate_macros p tdee) = tdee + 300" if "tdee \<in> \<int>"
    using that by (simp add: eq round_nd0_Ints)
next
  assume df: "WEIGHT_LOSS \<notin> set (goals p) \<and> MUSCLE_GAIN \<notin> set (goals p)"
  then have eq: "calculate_macros p tdee =
           \<lparr>calories = round_nd tdee 0,
            protein = round_nd ((tdee * (25 / 100)) / 4) 0,
            carbs = round_nd ((tdee * (45 / 100)) / 4) 0,
            fats = round_nd ((tdee * (30 / 100)) / 9) 0\<rparr>"
    by (intro calculate_macros_default) auto
  show "spec_macros tdee (25 / 100) (30 / 100) (45 / 100) (calculate_macros p tdee)"
    unfolding eq by (rule spec_macros_round)
  show "calories (calculate_macros p tdee) = tdee" if "tdee \<in> \<int>"
    using that by (simp add: eq round_nd0_Ints)
qed

theorem calculate_macros_first_match_witness:
  "WEIGHT_LOSS \<in> set (goals sample_profile) \<and> MUSCLE_GAIN \<in> set (goals sample_profile)
   \<and> (2788::rat) \<in> \<int>
   \<and> spec_macros 2288 (35 / 100) (25 / 100) (40 / 100) (calculate_macros sample_profile 2788)
   \<and> calories (calculate_macros sample_profile 2788) = 2288
   \<and> spec_macros 3088 (30 / 100) (25 / 100) (45 / 100)
        (calculate_macros (sample_profile\<lparr>goals := [MUSCLE_GAIN]\<rparr>) 2788)
   \<and> calories (calculate_macros (sample_profile\<lparr>goals := [MUSCLE_GAIN]\<rparr>) 2788) = 3088
   \<and> spec_macros 2788 (25 / 100) (30 / 100) (45 / 100)
        (calculate_macros (sample_profile\<lparr>goals := [ENDURANCE]\<rparr>) 2788)
   \<and> calories (calculate_macros (sample_profile\<lparr>goals := [ENDURANCE]\<rparr>) 2788) = 2788"
  using calculate_macros_first_match [of sample_profile 2788]
    calculate_macros_first_match [of "sample_profile\<lparr>goals := [MUSCLE_GAIN]\<rparr>" 2788]
    calculate_macros_first_match [of "sample_profile\<lparr>goals := [ENDURANCE]\<rparr>" 2788]
  by (simp add: sample_profile_def)

text \<open>
  Claim C6, as stated: the calories entry and the calories of the gram figures differ by at
  most 3. It fails for the sample user: the target 2288 (tdee 2788 less 500) gives 200 g
  protein, 229 g carbohydrate and 64 g fat, which account for 2292 calories.
\<close>

theorem macro_calorie_identity_3_counterexample:
  "calculate_tdee sample_profile (calculate_bmr sample_profile) = 2788
   \<and> calculate_macros sample_profile 2788
       = \<lparr>calories = 2288, protein = 200, carbs = 229, fats = 64\<rparr>
   \<and> \<not> \<bar>calories (calculate_macros sample_profile 2788)
          - macro_calories (calculate_macros sample_profile 2788)\<bar> \<le> 3"
  by code_simp

text \<open>
  Claim C6, amended. The three gram figures are rounded one by one, so the rounding errors
  add up with the weights 4, 4 and 9: for every profile and every tdee the calories entry
  and the calories of the gram figures differ by at most 8, and 8 is reached (weight-loss
  goal, tdee 735).
\<close>

theorem macro_calorie_identity_within_8:
  "\<bar>calories (calculate_macros p tdee) - macro_calories (calculate_macros p tdee)\<bar> \<le> 8
   \<and> \<bar>calories (calculate_macros sample_profile 735)
        - macro_calories (calculate_macros sample_profile 735)\<bar> = 8"
proof -
  have reached: "\<bar>calories (calculate_macros sample_profile 735)
        - macro_calories (calculate_macros sample_profile 735)\<bar> = 8"
    by code_simp
  have "\<bar>calories (calculate_macros p tdee) - macro_calories (calculate_macros p tdee)\<bar> \<le> 8"
  proof -
    consider "WEIGHT_LOSS \<in> set (goals p)"
      | "WEIGHT_LOSS \<notin> set (goals p)" "MUSCLE_GAIN \<in> set (goals p)"
      | "WEIGHT_LOSS \<notin> set (goals p)" "MUSCLE_GAIN \<notin> set (goals p)"
      by blast
    then show ?thesis
    proof cases
      case 1
      show ?thesis
        unfolding calculate_macros_weight_loss [OF 1]
        using macros_record_deviation [of 7 20 "40 / 100" "25 / 100" "tdee - 500"] by simp
    next
      case 2
      show ?thesis
        unfolding calculate_macros_muscle_gain [OF 2]
        using macros_record_deviation [of 3 10 "45 / 100" "25 / 100" "tdee + 300"] by simp
    next
      case 3
      show ?thesis
        unfolding calculate_macros_default [OF 3]
        using macros_record_deviation [of 1 4 "45 / 100" "30 / 100" tdee] by simp
    qed
  qed
  with reached show ?thesis
    by simp
qed

section \<open>Intent resolution\<close>

lemma starts_with_iff: "starts_with kw t = (\<exists>suf. t = kw @ suf)"
  by (induction kw t rule: starts_with.induct) auto

lemma py_in_is_substring: "py_in kw t = is_substring kw t"
proof (induction t)
  case Nil
  then show ?case by (auto simp: is_substring_def)
next
  case (Cons c cs)
  have "is_substring kw (c # cs) = ((\<exists>suf. c # cs = kw @ suf) \<or> is_substring kw cs)"
  proof
    assume "is_substring kw (c # cs)"
    then obtain pre suf where eq: "c # cs = pre @ kw @ suf"
      by (auto simp: is_substring_def)
    show "(\<exists>suf. c # cs = kw @ suf) \<or> is_substring kw cs"
    proof (cases pre)
      case Nil
      with eq show ?thesis by auto
    next
      case (Cons a pre')
      with eq have "cs = pre' @ kw @ suf" by simp
      then show ?thesis by (auto simp: is_substring_def)
    qed
  next
    assume "(\<exists>suf. c # cs = kw @ suf) \<or> is_substring kw cs"
    then show "is_substring kw (c # cs)"
    proof
      assume "\<exists>suf. c # cs = kw @ suf"
      then obtain suf where "c # cs = [] @ kw @ suf" by auto
      then show ?thesis unfolding is_substring_def by blast
    next
      assume "is_substring kw cs"
      then obtain pre suf where "cs = pre @ kw @ suf" by (auto simp: is_substring_def)
      then have "c # cs = (c # pre) @ kw @ suf" by simp
      then show ?thesis unfolding is_substring_def by blast
    qed
  qed
  with Cons show ?case by (simp add: starts_with_iff)
qed

lemma entry_matches_iff:
  "entry_matches t e = (\<exists>kw \<in> set (snd e). is_substring kw t)"
  by (simp add: entry_matches_def list_ex_iff py_in_is_substring)

lemma scan_patterns_first:
  assumes "n < length ps" and "entry_matches t (ps ! n)"
    and "\<forall>e \<in> set (take n ps). \<not> entry_matches t e"
  shows "scan_patterns ps t = (fst (ps ! n), 8 / 10)"
  using assms
proof (induction ps arbitrary: n)
  case Nil
  then show ?case by simp
next
  case (Cons e rest)
  show ?case
  proof (cases n)
    case 0
    with Cons.prems show ?thesis by simp
  next
    case (Suc m)
    with Cons.prems have "\<not> entry_matches t e" by simp
    moreover have "scan_patterns rest t = (fst (rest ! m), 8 / 10)"
      using Cons.prems Suc by (intro Cons.IH) auto
    ultimately show ?thesis using Suc by simp
  qed
qed

lemma scan_patterns_none:
  assumes "\<forall>e \<in> set ps. \<not> entry_matches t e"
  shows "scan_patterns ps t = (''general'', 5 / 10)"
  using assms by (induction ps) auto

lemma entry_matches_empty: "e \<in> set patterns \<Longrightarrow> \<not> entry_matches [] e"
  by (auto simp: patterns_def entry_matches_def)

text \<open>
  Claim C3. With the classifier untrained, \<^verbatim>\<open>predict\<close> returns for every text (it does
  not fail) the result of the keyword scan of the lower-cased text: the intent of the
  first table entry one of whose keywords is a substring of the lower-cased text, with
  confidence 0.8, and \<open>(general, 0.5)\<close> when no entry matches, which is the case for the
  empty text.
\<close>

theorem predict_untrained_keyword_fallback:
  assumes "\<not> trained ic"
  shows "predict ic msg = Inr (rule_based_classify msg)
   \<and> (n < length patterns \<and> entry_matches (lower msg) (patterns ! n)
        \<and> (\<forall>e \<in> set (take n patterns). \<not> entry_matches (lower msg) e)
        \<longrightarrow> predict ic msg = Inr (fst (patterns ! n), 8 / 10))
   \<and> ((\<forall>e \<in> set patterns. \<not> entry_matches (lower msg) e)
        \<longrightarrow> predict ic msg = Inr (''general'', 5 / 10))
   \<and> entry_matches (lower msg) e = (\<exists>kw \<in> set (snd e). is_substring kw (lower msg))
   \<and> predict ic [] = Inr (''general'', 5 / 10)"
proof -
  have p: "predict ic t = Inr (scan_patterns patterns (lower t))" for t
    using assms by (simp add: predict_def rule_based_classify_def)
  have "predict ic [] = Inr (''general'', 5 / 10)"
    unfolding p using scan_patterns_none [of patterns "[]"] entry_matches_empty
    by (auto simp: lower_def)
  moreover have "predict ic msg = Inr (rule_based_classify msg)"
    using assms by (simp add: predict_def)
  ultimately show ?thesis
    unfolding p using scan_patterns_first [of n patterns "lower msg"]
      scan_patterns_none [of patterns "lower msg"] entry_matches_iff [of "lower msg" e]
    by (simp add: rule_based_classify_def)
qed

theorem predict_untrained_keyword_fallback_witness:
  "\<not> trained IntentClassifier_init
   \<and> 3 < length patterns
   \<and> entry_matches (lower ''I am TIRED, the Gym is hard'') (patterns ! 3)
   \<and> list_all (\<lambda>e. \<not> entry_matches (lower ''I am TIRED, the Gym is hard'') e) (take 3 patterns)
   \<and> predict IntentClassifier_init ''I am TIRED, the Gym is hard'' = Inr (''workout_plan'', 8 / 10)
   \<and> list_all (\<lambda>e. \<not> entry_matches (lower ''Lorem ipsum'') e) patterns
   \<and> predict IntentClassifier_init ''Lorem ipsum'' = Inr (''general'', 5 / 10)"
proof -
  have u: "\<not> trained IntentClassifier_init"
    by (simp add: IntentClassifier_init_def)
  have h: "3 < length patterns
     \<and> entry_matches (lower ''I am TIRED, the Gym is hard'') (patterns ! 3)
     \<and> list_all (\<lambda>e. \<not> entry_matches (lower ''I am TIRED, the Gym is hard'') e) (take 3 patterns)"
    by code_simp
  have g: "list_all (\<lambda>e. \<not> entry_matches (lower ''Lorem ipsum'') e) patterns"
    by code_simp
  have f: "fst (patterns ! 3) = ''workout_plan''"
    by code_simp
  have "predict IntentClassifier_init ''I am TIRED, the Gym is hard''
          = Inr (fst (patterns ! 3), 8 / 10)"
    using u h predict_untrained_keyword_fallback [where ic = IntentClassifier_init and n = 3
        and msg = "''I am TIRED, the Gym is hard''" and e = "patterns ! 3"]
    unfolding list_all_iff by blast
  moreover have "predict IntentClassifier_init ''Lorem ipsum'' = Inr (''general'', 5 / 10)"
    using u g predict_untrained_keyword_fallback [where ic = IntentClassifier_init and n = 0
        and msg = "''Lorem ipsum''" and e = "patterns ! 0"]
    unfolding list_all_iff by blast
  ultimately show ?thesis
    using u h g f by simp
qed

section \<open>Weekly plan\<close>















section \<open>Profile creation\<close>














section \<open>Message processing\<close>

lemmas handler_defs = handle_greeting_def handle_bmi_query_def handle_diet_plan_def
  handle_workout_plan_def handle_health_risk_def handle_progress_tracking_def
  handle_motivation_def handle_nutrition_info_def handle_goal_setting_def
  handle_supplement_info_def handle_injury_prevention_def handle_recovery_def
  handle_sleep_advice_def handle_hydration_def handle_general_def

lemma generate_intent_response_keys:
  "map fst (generate_intent_response rnd p i m) = [''response'', ''suggestions'', ''data'']
   \<or> map fst (generate_intent_response rnd p i m) = [''response'', ''data'']"
  by (simp add: generate_intent_response_def responses_def handler_defs Let_def)

lemma generate_intent_response_no_timestamp:
  "map_of (generate_intent_response rnd p i m) ''timestamp'' = None"
proof -
  have "''timestamp'' \<notin> set (map fst (generate_intent_response rnd p i m))"
    using generate_intent_response_keys [of rnd p i m] by auto
  then show ?thesis
    by (simp add: map_of_eq_None_iff)
qed

lemma generate_intent_response_has_response:
  "\<exists>t. py_getitem (generate_intent_response rnd p i m) ''response'' = Inr t"
proof -
  have "''response'' \<in> set (map fst (generate_intent_response rnd p i m))"
    using generate_intent_response_keys [of rnd p i m] by auto
  then have "map_of (generate_intent_response rnd p i m) ''response'' \<noteq> None"
    by (simp add: map_of_eq_None_iff)
  then show ?thesis
    by (auto simp: py_getitem_def)
qed

lemma process_message_no_profile:
  assumes "user_profiles s uid = None"
  shows "process_message s uid msg now rnd =
           (Inr [(''response'',
                    PStr ''I need your basic information first. Please provide your age, weight, height, and gender.''),
                 (''requires_profile'', PBool True)], s)"
  using assms by (simp add: process_message_def)

lemma process_message_active:
  assumes "user_profiles s uid = Some p" and "predict (intent_classifier s) msg = Inr (i, c)"
  shows "\<exists>t. py_getitem (generate_intent_response rnd p i msg) ''response'' = Inr t
           \<and> process_message s uid msg now rnd =
               (Inr (generate_intent_response rnd p i msg),
                s\<lparr>conversation_history :=
                    (conversation_history s)
                      (uid \<mapsto> (case conversation_history s uid of None \<Rightarrow> [] | Some h \<Rightarrow> h) @
                               [[(''timestamp'', PStr now), (''message'', PStr msg),
                                 (''intent'', PStr i), (''response'', t)]])\<rparr>)"
proof -
  obtain t where t: "py_getitem (generate_intent_response rnd p i msg) ''response'' = Inr t"
    using generate_intent_response_has_response by blast
  have "process_message s uid msg now rnd =
               (Inr (generate_intent_response rnd p i msg),
                s\<lparr>conversation_history :=
                    (conversation_history s)
                      (uid \<mapsto> (case conversation_history s uid of None \<Rightarrow> [] | Some h \<Rightarrow> h) @
                               [[(''timestamp'', PStr now), (''message'', PStr msg),
                                 (''intent'', PStr i), (''response'', t)]])\<rparr>)"
    by (simp add: process_message_def assms t Let_def)
  with t show ?thesis
    by blast
qed

lemma process_message_predict_fails:
  assumes "user_profiles s uid = Some p" and "predict (intent_classifier s) msg = Inl e"
  shows "process_message s uid msg now rnd = (Inl e, s)"
  using assms by (simp add: process_message_def)

lemma create_user_profile_Inr:
  assumes "create_user_profile s d = (Inr p, s1)"
  shows "s1 = s\<lparr>user_profiles := (user_profiles s)(ud_user_id d \<mapsto> p)\<rparr>"
  using assms
  by (auto simp: create_user_profile_def split: sum.splits)

text \<open>
  Claim C4. \<^verbatim>\<open>process_message\<close> for a user identifier without a stored profile returns
  a response with \<open>requires_profile\<close> true and leaves the whole state, hence the history
  of every user, as it was. Once \<^verbatim>\<open>create_user_profile\<close> has stored a profile for that
  identifier, a call with the same text appends exactly one entry, holding that text and
  the time of the call, to the history of that user and changes nothing else. Intent
  resolution must return for this: it always does with an untrained classifier, and with
  a trained one when the model returns a label for the text.
\<close>

theorem process_message_profile_gate:
  "(user_profiles s uid = None \<longrightarrow>
      (\<exists>r. process_message s uid msg now rnd = (Inr r, s)
           \<and> map_of r ''requires_profile'' = Some (PBool True)))
   \<and> (create_user_profile s d = (Inr p, s1) \<and> ud_user_id d = uid
        \<and> (trained (intent_classifier s) \<longrightarrow> (\<exists>y. classifier (intent_classifier s) msg = Inr y))
      \<longrightarrow>
      (\<exists>r e. process_message s1 uid msg now2 rnd2 =
               (Inr r,
                s1\<lparr>conversation_history :=
                     (conversation_history s)
                       (uid \<mapsto> (case conversation_history s uid of None \<Rightarrow> [] | Some h \<Rightarrow> h) @ [e])\<rparr>)
            \<and> map_of e ''message'' = Some (PStr msg)
            \<and> map_of e ''timestamp'' = Some (PStr now2)))"
proof (intro conjI impI)
  assume "user_profiles s uid = None"
  then show "\<exists>r. process_message s uid msg now rnd = (Inr r, s)
               \<and> map_of r ''requires_profile'' = Some (PBool True)"
    by (simp add: process_message_no_profile)
next
  assume h: "create_user_profile s d = (Inr p, s1) \<and> ud_user_id d = uid
        \<and> (trained (intent_classifier s) \<longrightarrow> (\<exists>y. classifier (intent_classifier s) msg = Inr y))"
  then have s1: "s1 = s\<lparr>user_profiles := (user_profiles s)(uid \<mapsto> p)\<rparr>"
    using create_user_profile_Inr by blast
  from h obtain i c where ic: "predict (intent_classifier s) msg = Inr (i, c)"
    by (cases "trained (intent_classifier s)") (auto simp: predict_def intro: prod.exhaust)
  have "user_profiles s1 uid = Some p" "predict (intent_classifier s1) msg = Inr (i, c)"
    using ic by (simp_all add: s1)
  then obtain t where "process_message s1 uid msg now2 rnd2 =
               (Inr (generate_intent_response rnd2 p i msg),
                s1\<lparr>conversation_history :=
                    (conversation_history s1)
                      (uid \<mapsto> (case conversation_history s1 uid of None \<Rightarrow> [] | Some h \<Rightarrow> h) @
                               [[(''timestamp'', PStr now2), (''message'', PStr msg),
                                 (''intent'', PStr i), (''response'', t)]])\<rparr>)"
    using process_message_active [of s1 uid p msg i c rnd2 now2] by blast
  moreover have "conversation_history s1 = conversation_history s"
    by (simp add: s1)
  ultimately have "process_message s1 uid msg now2 rnd2 =
               (Inr (generate_intent_response rnd2 p i msg),
                s1\<lparr>conversation_history :=
                    (conversation_history s)
                      (uid \<mapsto> (case conversation_history s uid of None \<Rightarrow> [] | Some h \<Rightarrow> h) @
                               [[(''timestamp'', PStr now2), (''message'', PStr msg),
                                 (''intent'', PStr i), (''response'', t)]])\<rparr>)
     \<and> map_of [(''timestamp'', PStr now2), (''message'', PStr msg),
                (''intent'', PStr i), (''response'', t)] ''message'' = Some (PStr msg)
     \<and> map_of [(''timestamp'', PStr now2), (''message'', PStr msg),
                (''intent'', PStr i), (''response'', t)] ''timestamp'' = Some (PStr now2)"
    by simp
  then show "\<exists>r e. process_message s1 uid msg now2 rnd2 =
               (Inr r,
                s1\<lparr>conversation_history :=
                     (conversation_history s)
                       (uid \<mapsto> (case conversation_history s uid of None \<Rightarrow> [] | Some h \<Rightarrow> h) @ [e])\<rparr>)
            \<and> map_of e ''message'' = Some (PStr msg)
            \<and> map_of e ''timestamp'' = Some (PStr now2)"
    by blast
qed

theorem process_message_profile_gate_witness:
  "user_profiles FitnessChatbot_init ''test_user_1'' = None
   \<and> process_message FitnessChatbot_init ''test_user_1'' ''hi'' ''2025-01-01T09:00:00'' 0
       = (Inr [(''response'',
                  PStr ''I need your basic information first. Please provide your age, weight, height, and gender.''),
               (''requires_profile'', PBool True)], FitnessChatbot_init)
   \<and> ud_user_id sample_user = ''test_user_1''
   \<and> \<not> trained (intent_classifier FitnessChatbot_init)
   \<and> (\<exists>s1 r e. create_user_profile FitnessChatbot_init sample_user = (Inr sample_profile, s1)
        \<and> process_message s1 ''test_user_1'' ''hi'' ''2025-01-01T09:05:00'' 0
            = (Inr r, s1\<lparr>conversation_history := Map.empty(''test_user_1'' \<mapsto> [e])\<rparr>)
        \<and> map_of e ''message'' = Some (PStr ''hi'')
        \<and> map_of e ''timestamp'' = Some (PStr ''2025-01-01T09:05:00''))"
proof -
  have a: "user_profiles FitnessChatbot_init ''test_user_1'' = None"
    by (simp add: FitnessChatbot_init_def)
  have b: "ud_user_id sample_user = ''test_user_1''"
    by (simp add: sample_user_def)
  have c: "\<not> trained (intent_classifier FitnessChatbot_init)"
    by (simp add: FitnessChatbot_init_def IntentClassifier_init_def)
  have "fst (create_user_profile FitnessChatbot_init sample_user) = Inr sample_profile"
    by code_simp
  then obtain s1 where d: "create_user_profile FitnessChatbot_init sample_user
      = (Inr sample_profile, s1)"
    by (cases "create_user_profile FitnessChatbot_init sample_user") auto
  have e: "conversation_history FitnessChatbot_init = Map.empty"
    by (simp add: FitnessChatbot_init_def)
  note T = process_message_profile_gate [of FitnessChatbot_init "''test_user_1''" "''hi''"
      "''2025-01-01T09:00:00''" 0 sample_user sample_profile s1 "''2025-01-01T09:05:00''" 0]
  have "\<exists>r e. process_message s1 ''test_user_1'' ''hi'' ''2025-01-01T09:05:00'' 0
            = (Inr r, s1\<lparr>conversation_history := Map.empty(''test_user_1'' \<mapsto> [e])\<rparr>)
        \<and> map_of e ''message'' = Some (PStr ''hi'')
        \<and> map_of e ''timestamp'' = Some (PStr ''2025-01-01T09:05:00'')"
    using T b c d by (simp add: e)
  moreover have "process_message FitnessChatbot_init ''test_user_1'' ''hi'' ''2025-01-01T09:00:00'' 0
       = (Inr [(''response'',
                  PStr ''I need your basic information first. Please provide your age, weight, height, and gender.''),
               (''requires_profile'', PBool True)], FitnessChatbot_init)"
    using T a by (simp add: process_message_def)
  ultimately show ?thesis
    using a b c d by blast
qed

text \<open>
  Claim C9, as stated: for a user with a stored profile the returned value is the response
  builder's output augmented with a timestamp field. It fails: for the sample user and the
  text \<open>hi\<close> the returned dictionary is the greeting builder's output itself, with the
  keys \<open>response\<close>, \<open>suggestions\<close> and \<open>data\<close> and no \<open>timestamp\<close>.
\<close>

theorem process_message_timestamp_counterexample:
  "user_profiles (snd (create_user_profile FitnessChatbot_init sample_user)) ''test_user_1''
     = Some sample_profile
   \<and> fst (process_message (snd (create_user_profile FitnessChatbot_init sample_user))
            ''test_user_1'' ''hi'' ''2025-01-01T09:05:00'' 0)
       = Inr (handle_greeting sample_profile ''hi'')
   \<and> map fst (handle_greeting sample_profile ''hi'') = [''response'', ''suggestions'', ''data'']
   \<and> map_of (handle_greeting sample_profile ''hi'') ''timestamp'' = None"
  by code_simp

text \<open>
  Claim C9, amended. For every user with a stored profile and every text on which intent
  resolution returns, the value returned by \<^verbatim>\<open>process_message\<close> is the output of the
  dispatched response builder, unchanged and without a \<open>timestamp\<close> key; the timestamp
  is written only into the history entry appended for the message.
\<close>

theorem process_message_returns_builder_output:
  assumes "user_profiles s uid = Some p" and "predict (intent_classifier s) msg = Inr (i, c)"
  shows "fst (process_message s uid msg now rnd) = Inr (generate_intent_response rnd p i msg)
   \<and> map_of (generate_intent_response rnd p i msg) ''timestamp'' = None
   \<and> (\<exists>h e. conversation_history (snd (process_message s uid msg now rnd)) uid = Some (h @ [e])
            \<and> map_of e ''timestamp'' = Some (PStr now))"
proof -
  obtain t where "process_message s uid msg now rnd =
               (Inr (generate_intent_response rnd p i msg),
                s\<lparr>conversation_history :=
                    (conversation_history s)
                      (uid \<mapsto> (case conversation_history s uid of None \<Rightarrow> [] | Some h \<Rightarrow> h) @
                               [[(''timestamp'', PStr now), (''message'', PStr msg),
                                 (''intent'', PStr i), (''response'', t)]])\<rparr>)"
    using process_message_active [OF assms] by blast
  then show ?thesis
    by (simp add: generate_intent_response_no_timestamp)
qed

theorem process_message_returns_builder_output_witness:
  "user_profiles (snd (create_user_profile FitnessChatbot_init sample_user)) ''test_user_1''
     = Some sample_profile
   \<and> predict (intent_classifier (snd (create_user_profile FitnessChatbot_init sample_user)))
        ''what about water'' = Inr (''hydration'', 8 / 10)
   \<and> fst (process_message (snd (create_user_profile FitnessChatbot_init sample_user))
            ''test_user_1'' ''what about water'' ''2025-01-01T09:05:00'' 0)
       = Inr (generate_intent_response 0 sample_profile ''hydration'' ''what about water'')
   \<and> map_of (generate_intent_response 0 sample_profile ''hydration'' ''what about water'')
        ''timestamp'' = None"
proof -
  let ?s = "snd (create_user_profile FitnessChatbot_init sample_user)"
  have a: "user_profiles ?s ''test_user_1'' = Some sample_profile"
    by code_simp
  have b: "predict (intent_classifier ?s) ''what about water'' = Inr (''hydration'', 8 / 10)"
    by code_simp
  show ?thesis
    using a b process_message_returns_builder_output [OF a b, of "''2025-01-01T09:05:00''" 0]
    by blast
qed

text \<open>
  Claim C8, as stated: a failure raised by the trained strategy is caught in
  \<^verbatim>\<open>predict\<close> and replaced by the keyword fallback's result. It fails: with the
  trained flag set and a model that raises on \<open>hi\<close>, \<^verbatim>\<open>predict\<close> raises the same
  error, although the fallback would answer \<open>(greeting, 0.8)\<close>.
\<close>

theorem predict_failure_not_caught_counterexample:
  "trained failing_classifier
   \<and> classifier failing_classifier ''hi'' = Inl (ModelFault ''predict'')
   \<and> rule_based_classify ''hi'' = (''greeting'', 8 / 10)
   \<and> predict failing_classifier ''hi'' = Inl (ModelFault ''predict'')
   \<and> predict failing_classifier ''hi'' \<noteq> Inr (rule_based_classify ''hi'')"
  by code_simp

text \<open>
  Claim C8, amended. \<^verbatim>\<open>predict\<close> has no handler around the trained strategy: with the
  trained flag set it returns whatever the model returns and raises whatever the model
  raises, and \<^verbatim>\<open>process_message\<close> passes that error on to its caller without touching
  the state; the keyword fallback is used only while the trained flag is not set.
\<close>

theorem predict_failure_propagates:
  "(trained ic \<longrightarrow> predict ic msg = classifier ic msg)
   \<and> (\<not> trained ic \<longrightarrow> predict ic msg = Inr (rule_based_classify msg))
   \<and> (trained (intent_classifier s) \<and> classifier (intent_classifier s) msg = Inl e
        \<and> user_profiles s uid = Some p \<longrightarrow>
        process_message s uid msg now rnd = (Inl e, s))"
proof -
  have "process_message s uid msg now rnd = (Inl e, s)"
    if "trained (intent_classifier s) \<and> classifier (intent_classifier s) msg = Inl e
        \<and> user_profiles s uid = Some p"
    using that by (intro process_message_predict_fails [of s uid p]) (simp_all add: predict_def)
  then show ?thesis
    by (simp add: predict_def)
qed

theorem predict_failure_propagates_witness:
  "trained failing_classifier
   \<and> \<not> trained IntentClassifier_init
   \<and> classifier failing_classifier ''hi'' = Inl (ModelFault ''predict'')
   \<and> predict failing_classifier ''hi'' = Inl (ModelFault ''predict'')
   \<and> predict IntentClassifier_init ''hi'' = Inr (''greeting'', 8 / 10)
   \<and> user_profiles
        (snd (create_user_profile (FitnessChatbot_init\<lparr>intent_classifier := failing_classifier\<rparr>)
                sample_user)) ''test_user_1'' = Some sample_profile
   \<and> process_message
        (snd (create_user_profile (FitnessChatbot_init\<lparr>intent_classifier := failing_classifier\<rparr>)
                sample_user)) ''test_user_1'' ''hi'' ''2025-01-01T09:05:00'' 0
       = (Inl (ModelFault ''predict''),
          snd (create_user_profile (FitnessChatbot_init\<lparr>intent_classifier := failing_classifier\<rparr>)
                 sample_user))"
proof -
  let ?s = "snd (create_user_profile (FitnessChatbot_init\<lparr>intent_classifier := failing_classifier\<rparr>)
                sample_user)"
  have a: "trained failing_classifier \<and> \<not> trained IntentClassifier_init
     \<and> classifier failing_classifier ''hi'' = Inl (ModelFault ''predict'')"
    by (simp add: failing_classifier_def IntentClassifier_init_def)
  have b: "rule_based_classify ''hi'' = (''greeting'', 8 / 10)"
    by code_simp
  have c: "user_profiles ?s ''test_user_1'' = Some sample_profile"
    by code_simp
  have d: "intent_classifier ?s = failing_classifier"
    by (simp add: create_user_profile_def split: sum.splits)
  note T = predict_failure_propagates [of failing_classifier "''hi''" ?s
      "ModelFault ''predict''" "''test_user_1''" sample_profile "''2025-01-01T09:05:00''" 0]
  note U = predict_failure_propagates [of IntentClassifier_init "''hi''" ?s
      "ModelFault ''predict''" "''test_user_1''" sample_profile "''2025-01-01T09:05:00''" 0]
  have "predict failing_classifier ''hi'' = Inl (ModelFault ''predict'')"
    using T a by simp
  moreover have "predict IntentClassifier_init ''hi'' = Inr (''greeting'', 8 / 10)"
    using U a b by simp
  moreover have "process_message ?s ''test_user_1'' ''hi'' ''2025-01-01T09:05:00'' 0
       = (Inl (ModelFault ''predict''), ?s)"
    using T a c unfolding d by blast
  ultimately show ?thesis
    using a c by blast
qed

end
